theory Spec2Isabelle
  imports Complex_Main "HOL-Library.Sublist"
begin

section \<open>Microgreen portal backend: inventory ledger, orders and forecast cache\<close>

text \<open>
  A shallow embedding of \<^verbatim>\<open>backend/main.py\<close>. The module keeps its data in global
  lists (\<^verbatim>\<open>inventory_items\<close>, \<^verbatim>\<open>inventory_logs\<close>, \<^verbatim>\<open>orders\<close>,
  \<^verbatim>\<open>notifications\<close>) and a dictionary (\<^verbatim>\<open>forecasts_cache\<close>); every route is a
  function that takes the globals and returns them updated next to its result. An
  \<^verbatim>\<open>HTTPException\<close> is the \<open>Inl\<close> of the result; the globals come back in either case,
  because what a route wrote before it raised stays written.

  Conventions of the model:
  \<^item> \<^verbatim>\<open>uuid.uuid4()\<close> and \<^verbatim>\<open>datetime.now()\<close> are inputs of the function that calls
    them (\<open>new_id\<close>, \<open>now\<close>).
  \<^item> A \<^verbatim>\<open>datetime\<close> is an \<open>int\<close> of microseconds, a \<^verbatim>\<open>date\<close> an \<open>int\<close> of days.
  \<^item> The \<^verbatim>\<open>id\<close> and \<^verbatim>\<open>timestamp\<close> of a log entry and of a notification, the
    \<^verbatim>\<open>id\<close> and \<^verbatim>\<open>price_per_tray\<close> of an order line and the \<^verbatim>\<open>total_price\<close> of an
    order are written by the code and read by none of the functions below; the records
    leave them out.
  \<^item> \<^verbatim>\<open>print\<close> is not modelled; \<^verbatim>\<open>send_email_notification\<close> is recorded as a call.
\<close>

subsection \<open>Data model\<close>

datatype http_error = HTTPException (status_code: nat) (detail: string)

record inventory_item =
  item_id :: string
  variety :: string
  trayCount :: int
  harvestDate :: int
  weightKg :: "rat option"
  status :: string

record inventory_log =
  itemId :: string
  change :: int
  reason :: string
  userId :: string

record order_item =
  orderId :: string
  inventoryItemId :: string
  line_variety :: string
  quantity :: int

record order =
  order_id :: string
  customerName :: string
  customerContact :: "string option"
  orderDate :: int
  pickupDate :: int
  order_status :: string
  items :: "order_item list"

record notification =
  message :: string
  notif_type :: string
  is_read :: bool

record store =
  inventory_items :: "inventory_item list"
  inventory_logs :: "inventory_log list"
  orders :: "order list"
  notifications :: "notification list"
  sent_emails :: "(string \<times> string) list"
  low_stock_threshold :: int

type_synonym 'a result = "(http_error + 'a) \<times> store"

subsection \<open>Helpers\<close>

text \<open>\<^verbatim>\<open>next((i for i, x in enumerate(xs) if P(x)), None)\<close>\<close>

fun first_index :: "('a \<Rightarrow> bool) \<Rightarrow> 'a list \<Rightarrow> nat option" where
  "first_index P [] = None"
| "first_index P (x # xs) = (if P x then Some 0 else map_option Suc (first_index P xs))"

text \<open>Python's \<^verbatim>\<open>str\<close> of an integer, as the f-strings of the module use it.\<close>

definition digit_char :: "nat \<Rightarrow> char" where
  "digit_char d = char_of (48 + d)"

function str_nat :: "nat \<Rightarrow> string" where
  "str_nat n = (if n < 10 then [digit_char n] else str_nat (n div 10) @ [digit_char (n mod 10)])"
  by pat_completeness auto
termination
  by (relation "measure (\<lambda>n. n)") auto

declare str_nat.simps [simp del]

definition str_int :: "int \<Rightarrow> string" where
  "str_int i = (if i < 0 then CHR ''-'' # str_nat (nat (- i)) else str_nat (nat i))"

subsection \<open>The ledger: \<^verbatim>\<open>adjust_inventory\<close>\<close>

definition adjust_inventory :: "string \<Rightarrow> int \<Rightarrow> string \<Rightarrow> string \<Rightarrow> store \<Rightarrow> unit result" where
  "adjust_inventory iid chg rsn user_id s =
     (case first_index (\<lambda>item. item_id item = iid) (inventory_items s) of
        None \<Rightarrow>
          (Inl (HTTPException 404 (''Inventory item '' @ iid @ '' not found for adjustment'')), s)
      | Some index \<Rightarrow>
          let current_count = trayCount (inventory_items s ! index);
              new_count = current_count + chg
          in if new_count < 0 then
               (Inl (HTTPException 400
                  (''Adjustment for item '' @ iid @ '' results in negative inventory (''
                    @ str_int new_count @ '') for reason: '' @ rsn)), s)
             else
               let s1 = s\<lparr>inventory_items :=
                           (inventory_items s)[index := (inventory_items s ! index)\<lparr>trayCount := new_count\<rparr>]\<rparr>;
                   s2 = s1\<lparr>inventory_logs := inventory_logs s1 @
                           [\<lparr>itemId = iid, change = chg, reason = rsn, userId = user_id\<rparr>]\<rparr>
               in if chg < 0 \<and> new_count < low_stock_threshold s2 then
                    let v = variety (inventory_items s2 ! index);
                        alert_msg = ''Low inventory: '' @ v @ '' down to '' @ str_int new_count @ '' trays''
                    in (Inr (),
                        s2\<lparr>notifications := notifications s2 @
                              [\<lparr>message = alert_msg, notif_type = ''alert'', is_read = False\<rparr>],
                           sent_emails := sent_emails s2 @ [(''Inventory Alert: '' @ v, alert_msg)]\<rparr>)
                  else (Inr (), s2))"


subsection \<open>Inventory routes\<close>

definition valid_item_statuses :: "string list" where
  "valid_item_statuses = [''in-storage'', ''sold'', ''waste'']"

text \<open>
  \<^verbatim>\<open>create_inventory_item\<close>: the dictionary appended to \<^verbatim>\<open>inventory_items\<close> is the one
  the route returns, so the value returned is the last element of the list as
  \<^verbatim>\<open>adjust_inventory\<close> left it.
\<close>

definition create_inventory_item :: "inventory_item \<Rightarrow> string \<Rightarrow> int \<Rightarrow> store \<Rightarrow> inventory_item result" where
  "create_inventory_item item_data new_id now s =
     (if trayCount item_data < 0 then
        (Inl (HTTPException 400 ''Tray count cannot be negative''), s)
      else if status item_data \<notin> set valid_item_statuses then
        (Inl (HTTPException 400 ''Invalid status''), s)
      else
        let item_dict = item_data\<lparr>item_id := new_id, harvestDate := now\<rparr>;
            s1 = s\<lparr>inventory_items := inventory_items s @ [item_dict]\<rparr>
        in case adjust_inventory new_id (trayCount item_data) ''Manual creation'' ''system'' s1 of
             (Inl e, s2) \<Rightarrow> (Inl e, s2)
           | (Inr _, s2) \<Rightarrow> (Inr (last (inventory_items s2)), s2))"

text \<open>
  The body of a PUT request, as \<^verbatim>\<open>dict(exclude_unset=True)\<close> sees it: the required
  fields are always there, \<^verbatim>\<open>id\<close> and \<^verbatim>\<open>weightKg\<close> only when the client sent them.
\<close>

record item_update =
  upd_id :: "string option"
  upd_variety :: string
  upd_trayCount :: int
  upd_harvestDate :: int
  upd_weightKg :: "rat option option"
  upd_status :: string

definition merge_update :: "inventory_item \<Rightarrow> item_update \<Rightarrow> inventory_item" where
  "merge_update original u =
     \<lparr>item_id = (case upd_id u of None \<Rightarrow> item_id original | Some i \<Rightarrow> i),
      variety = upd_variety u,
      trayCount = upd_trayCount u,
      harvestDate = upd_harvestDate u,
      weightKg = (case upd_weightKg u of None \<Rightarrow> weightKg original | Some w \<Rightarrow> w),
      status = upd_status u\<rparr>"

definition update_inventory_item :: "string \<Rightarrow> item_update \<Rightarrow> store \<Rightarrow> inventory_item result" where
  "update_inventory_item iid updated_item_data s =
     (case first_index (\<lambda>item. item_id item = iid) (inventory_items s) of
        None \<Rightarrow> (Inl (HTTPException 404 ''Inventory item not found''), s)
      | Some index \<Rightarrow>
          if upd_status updated_item_data \<notin> set valid_item_statuses then
            (Inl (HTTPException 400 ''Invalid status''), s)
          else
            let original_item = inventory_items s ! index
            in if upd_trayCount updated_item_data \<noteq> trayCount original_item then
                 (Inl (HTTPException 400 ''Tray count must be updated via logs''), s)
               else
                 let updated_item_dict = merge_update original_item updated_item_data
                 in (Inr updated_item_dict,
                     s\<lparr>inventory_items := (inventory_items s)[index := updated_item_dict]\<rparr>))"




subsection \<open>Order routes\<close>

text \<open>
  The \<^verbatim>\<open>except\<close> branch of \<^verbatim>\<open>create_order\<close>: every recorded adjustment is given
  back, an adjustment that fails is printed and skipped.
\<close>

fun revert_adjustments :: "string \<Rightarrow> (string \<times> int) list \<Rightarrow> store \<Rightarrow> store" where
  "revert_adjustments oid [] s = s"
| "revert_adjustments oid ((adj_item_id, adj_qty) # rest) s =
     revert_adjustments oid rest
       (snd (adjust_inventory adj_item_id adj_qty (''Reverted failed order '' @ oid) ''system'' s))"

text \<open>
  The \<^verbatim>\<open>for i, item_data in enumerate(order_data.items)\<close> loop of \<^verbatim>\<open>create_order\<close>,
  with its locals \<^verbatim>\<open>inventory_adjustments\<close> and \<^verbatim>\<open>processed_items\<close>.
\<close>

fun create_order_loop ::
  "string \<Rightarrow> nat \<Rightarrow> order_item list \<Rightarrow> (string \<times> int) list \<Rightarrow> order_item list \<Rightarrow> store
     \<Rightarrow> order_item list result" where
  "create_order_loop oid i [] inventory_adjustments processed_items s = (Inr processed_items, s)"
| "create_order_loop oid i (item_data # rest) inventory_adjustments processed_items s =
     (let item_dict = item_data\<lparr>orderId := oid\<rparr>
      in case first_index (\<lambda>inv. item_id inv = inventoryItemId item_data) (inventory_items s) of
           None \<Rightarrow>
             (Inl (HTTPException 404
                (''Inventory item '' @ inventoryItemId item_data @ '' for order item ''
                  @ str_int (int i + 1) @ '' not found'')), s)
         | Some inv_index \<Rightarrow>
             if variety (inventory_items s ! inv_index) \<noteq> line_variety item_data then
               (Inl (HTTPException 400
                  (''Variety mismatch for inventory item '' @ inventoryItemId item_data)), s)
             else
               (case adjust_inventory (inventoryItemId item_data) (- quantity item_data)
                       (''Order '' @ oid) ''system'' s of
                  (Inl e, s1) \<Rightarrow>
                    (Inl (HTTPException 400
                       (''Insufficient stock for '' @ line_variety item_data @ '' (Item ID: ''
                         @ inventoryItemId item_data @ ''): '' @ detail e)),
                     revert_adjustments oid inventory_adjustments s1)
                | (Inr _, s1) \<Rightarrow>
                    create_order_loop oid (Suc i) rest
                      (inventory_adjustments @ [(inventoryItemId item_data, quantity item_data)])
                      (processed_items @ [item_dict]) s1))"

definition create_order :: "order \<Rightarrow> string \<Rightarrow> int \<Rightarrow> store \<Rightarrow> order result" where
  "create_order order_data new_id now s =
     (case create_order_loop new_id 0 (items order_data) [] [] s of
        (Inl e, s1) \<Rightarrow> (Inl e, s1)
      | (Inr processed_items, s1) \<Rightarrow>
          let order_dict = order_data\<lparr>order_id := new_id, orderDate := now,
                                      items := processed_items, order_status := ''pending''\<rparr>
          in (Inr order_dict, s1\<lparr>orders := orders s1 @ [order_dict]\<rparr>))"

definition valid_statuses :: "string list" where
  "valid_statuses = [''pending'', ''confirmed'', ''completed'', ''cancelled'']"

text \<open>The cancellation loop of \<^verbatim>\<open>update_order_status\<close>: a failed adjustment is printed.\<close>

fun cancel_adjustments :: "string \<Rightarrow> order_item list \<Rightarrow> store \<Rightarrow> store" where
  "cancel_adjustments oid [] s = s"
| "cancel_adjustments oid (item_dict # rest) s =
     cancel_adjustments oid rest
       (snd (adjust_inventory (inventoryItemId item_dict) (quantity item_dict)
               (''Order '' @ oid @ '' cancelled'') ''system'' s))"

definition update_order_status :: "string \<Rightarrow> string \<Rightarrow> store \<Rightarrow> order result" where
  "update_order_status oid status_val s =
     (if status_val \<notin> set valid_statuses then
        (Inl (HTTPException 400
           ''Invalid status. Must be one of: ['pending', 'confirmed', 'completed', 'cancelled']''), s)
      else case first_index (\<lambda>ord. order_id ord = oid) (orders s) of
        None \<Rightarrow> (Inl (HTTPException 404 ''Order not found''), s)
      | Some index \<Rightarrow>
          let original_status = order_status (orders s ! index);
              s1 = (if status_val = ''cancelled'' \<and> original_status \<noteq> ''cancelled''
                    then cancel_adjustments oid (items (orders s ! index)) s
                    else s);
              s2 = s1\<lparr>orders := (orders s1)[index := (orders s1 ! index)\<lparr>order_status := status_val\<rparr>]\<rparr>
          in (Inr (orders s2 ! index), s2))"

definition cancel_order :: "string \<Rightarrow> store \<Rightarrow> unit result" where
  "cancel_order oid s =
     (case update_order_status oid ''cancelled'' s of
        (Inl e, s1) \<Rightarrow>
          if status_code e = 404 then (Inl (HTTPException 404 ''Order not found''), s1)
          else (Inl e, s1)
      | (Inr _, s1) \<Rightarrow> (Inr (), s1))"


subsection \<open>Forecast route\<close>

text \<open>
  \<^verbatim>\<open>Forecast.id\<close>, \<^verbatim>\<open>Forecast.createdAt\<close> and \<^verbatim>\<open>SalesRecord.id\<close> are class-level
  defaults, computed once when the module is loaded, and \<^verbatim>\<open>SalesRecord.revenue\<close> is
  always \<^verbatim>\<open>None\<close>; the records leave them out. A float is a \<open>rat\<close>; the float
  operations of the route (\<^verbatim>\<open>df["y"].mean()\<close> and \<^verbatim>\<open>round(x, 1)\<close>) and the Prophet
  model are parameters \<open>py_mean\<close>, \<open>py_round1\<close> and \<open>prophet\<close> of the route. The
  model \<open>prophet df periods\<close> stands for \<^verbatim>\<open>fit\<close>, \<^verbatim>\<open>make_future_dataframe\<close> and
  \<^verbatim>\<open>predict\<close>: it yields the rows \<open>(ds, yhat)\<close> of \<^verbatim>\<open>forecast_df\<close>, or \<open>None\<close>
  when any of the three raises. The cache key \<^verbatim>\<open>f"{start_date.isoformat()}-{weeks}"\<close>
  determines the pair \<open>(start_date, weeks)\<close> and is modelled by it.

  A \<^verbatim>\<open>date\<close> is its proleptic Gregorian ordinal (\<^verbatim>\<open>date.toordinal()\<close>), from 1 for
  0001-01-01 to 3652059 for 9999-12-31; a \<^verbatim>\<open>datetime\<close> counts microseconds from the
  start of ordinal 0. Python's date arithmetic raises \<^verbatim>\<open>OverflowError\<close> when a
  \<^verbatim>\<open>timedelta\<close> exceeds 999999999 days in magnitude or a result leaves the range; the
  route catches none of these outside its \<^verbatim>\<open>try\<close> block.
\<close>

datatype py_exception = OverflowError

record sales_record =
  sale_date :: int
  totalTraysSold :: int

record forecast_point =
  point_date :: int
  predictedTrays :: rat

record forecast =
  periodStart :: int
  periodEnd :: int
  predictions :: "forecast_point list"

type_synonym forecasts_cache = "int \<times> int \<rightharpoonup> forecast"

definition day_us :: int where
  "day_us = 86400000000"

definition date_min :: int where
  "date_min = 1"

definition date_max :: int where
  "date_max = 3652059"

definition datetime_min :: int where
  "datetime_min = date_min * day_us"

definition datetime_max :: int where
  "datetime_max = date_max * day_us + (day_us - 1)"

text \<open>\<^verbatim>\<open>timedelta(days=n)\<close>; \<^verbatim>\<open>timedelta(weeks=w)\<close> is \<^verbatim>\<open>timedelta(days=7*w)\<close>.\<close>

definition timedelta_days :: "int \<Rightarrow> py_exception + int" where
  "timedelta_days n = (if 999999999 < \<bar>n\<bar> then Inl OverflowError else Inr n)"

text \<open>\<^verbatim>\<open>d + timedelta(days=n)\<close> on a \<^verbatim>\<open>date\<close>\<close>

definition date_add :: "int \<Rightarrow> int \<Rightarrow> py_exception + int" where
  "date_add d n =
     (case timedelta_days n of
        Inl e \<Rightarrow> Inl e
      | Inr k \<Rightarrow> if d + k < date_min \<or> date_max < d + k then Inl OverflowError else Inr (d + k))"

text \<open>\<^verbatim>\<open>dt - timedelta(days=n)\<close> on a \<^verbatim>\<open>datetime\<close>\<close>

definition datetime_sub_days :: "int \<Rightarrow> int \<Rightarrow> py_exception + int" where
  "datetime_sub_days dt n =
     (case timedelta_days n of
        Inl e \<Rightarrow> Inl e
      | Inr k \<Rightarrow>
          if dt - k * day_us < datetime_min \<or> datetime_max < dt - k * day_us then Inl OverflowError
          else Inr (dt - k * day_us))"

text \<open>\<^verbatim>\<open>datetime.date()\<close>\<close>

definition date_of :: "int \<Rightarrow> int" where
  "date_of dt = dt div day_us"

text \<open>\<^verbatim>\<open>sales_by_date[order_day] += trays_in_order\<close> on a \<^verbatim>\<open>defaultdict(int)\<close>\<close>

fun add_sale :: "int \<Rightarrow> int \<Rightarrow> (int \<times> int) list \<Rightarrow> (int \<times> int) list" where
  "add_sale order_day trays [] = [(order_day, 0 + trays)]"
| "add_sale order_day trays ((d, n) # rest) =
     (if d = order_day then (d, n + trays) # rest else (d, n) # add_sale order_day trays rest)"

fun sales_loop :: "int \<Rightarrow> int \<Rightarrow> order list \<Rightarrow> (int \<times> int) list \<Rightarrow> (int \<times> int) list" where
  "sales_loop start_hist_date end_hist_date [] sales_by_date = sales_by_date"
| "sales_loop start_hist_date end_hist_date (order_dict # rest) sales_by_date =
     sales_loop start_hist_date end_hist_date rest
       (if order_status order_dict = ''completed''
           \<and> start_hist_date \<le> orderDate order_dict \<and> orderDate order_dict \<le> end_hist_date
        then add_sale (date_of (orderDate order_dict)) (sum_list (map quantity (items order_dict)))
               sales_by_date
        else sales_by_date)"

definition get_historical_sales :: "int \<Rightarrow> int \<Rightarrow> store \<Rightarrow> py_exception + sales_record list" where
  "get_historical_sales days now s =
     (let end_hist_date = now
      in case datetime_sub_days end_hist_date days of
           Inl e \<Rightarrow> Inl e
         | Inr start_hist_date \<Rightarrow>
             let sales_by_date = sales_loop start_hist_date end_hist_date (orders s) []
             in Inr (map (\<lambda>(d, count). \<lparr>sale_date = d, totalTraysSold = count\<rparr>)
                      (sort_key fst sales_by_date)))"

text \<open>
  The fallback of \<^verbatim>\<open>get_demand_forecast\<close>: one point for each \<^verbatim>\<open>i\<close> of
  \<^verbatim>\<open>range(weeks * 7)\<close>, dated \<^verbatim>\<open>start_date + timedelta(days=i)\<close>. The code has it
  twice, after the \<^verbatim>\<open>if len(df) >= 2\<close> block and in the \<^verbatim>\<open>except\<close> branch, with the
  same effect; an \<^verbatim>\<open>OverflowError\<close> of the first is caught and raised again by the
  second, outside the \<^verbatim>\<open>try\<close>.
\<close>

fun fallback_loop :: "int \<Rightarrow> rat \<Rightarrow> nat list \<Rightarrow> py_exception + forecast_point list" where
  "fallback_loop start_date avg_rounded [] = Inr []"
| "fallback_loop start_date avg_rounded (i # rest) =
     (case date_add start_date (int i) of
        Inl e \<Rightarrow> Inl e
      | Inr pred_date \<Rightarrow>
          (case fallback_loop start_date avg_rounded rest of
             Inl e \<Rightarrow> Inl e
           | Inr points \<Rightarrow> Inr (\<lparr>point_date = pred_date, predictedTrays = avg_rounded\<rparr> # points)))"

definition fallback_predictions ::
  "(int list \<Rightarrow> rat) \<Rightarrow> (rat \<Rightarrow> rat) \<Rightarrow> sales_record list \<Rightarrow> int \<Rightarrow> int
     \<Rightarrow> py_exception + forecast_point list" where
  "fallback_predictions py_mean py_round1 df start_date weeks =
     (let avg_rounded = (if df \<noteq> [] then py_round1 (py_mean (map totalTraysSold df)) else 0)
      in fallback_loop start_date avg_rounded [0..<nat (weeks * 7)])"

definition get_demand_forecast ::
  "(int list \<Rightarrow> rat) \<Rightarrow> (rat \<Rightarrow> rat) \<Rightarrow> ((int \<times> int) list \<Rightarrow> int \<Rightarrow> (int \<times> rat) list option)
     \<Rightarrow> int \<Rightarrow> int \<Rightarrow> int \<Rightarrow> store \<Rightarrow> forecasts_cache
     \<Rightarrow> (py_exception + forecast) \<times> forecasts_cache" where
  "get_demand_forecast py_mean py_round1 prophet weeks today now s cache =
     (let start_date = today
      in case date_add start_date (7 * weeks) of
           Inl e \<Rightarrow> (Inl e, cache)
         | Inr end_date \<Rightarrow>
             let cache_key = (start_date, weeks)
             in case cache cache_key of
                  Some cached \<Rightarrow> (Inr cached, cache)
                | None \<Rightarrow>
                    (case get_historical_sales 60 now s of
                       Inl e \<Rightarrow> (Inl e, cache)
                     | Inr df \<Rightarrow>
                         let fallback = fallback_predictions py_mean py_round1 df start_date weeks;
                             predictions =
                               (if 2 \<le> length df then
                                  (case prophet (map (\<lambda>r. (sale_date r, totalTraysSold r)) df) (weeks * 7) of
                                     None \<Rightarrow> fallback
                                   | Some forecast_df \<Rightarrow>
                                       let in_period =
                                             map (\<lambda>(ds, yhat). \<lparr>point_date = ds, predictedTrays = py_round1 yhat\<rparr>)
                                               (filter (\<lambda>(ds, yhat). start_date \<le> ds \<and> ds \<le> end_date) forecast_df)
                                       in if in_period = [] then fallback else Inr in_period)
                                else fallback)
                         in case predictions of
                              Inl e \<Rightarrow> (Inl e, cache)
                            | Inr points \<Rightarrow>
                                let forecast_result = \<lparr>periodStart = start_date, periodEnd = end_date,
                                                        predictions = points\<rparr>
                                in (Inr forecast_result, cache(cache_key \<mapsto> forecast_result))))"

definition exact_mean :: "int list \<Rightarrow> rat" where
  "exact_mean ys = of_int (sum_list ys) / of_int (int (length ys))"

definition no_prophet :: "(int \<times> int) list \<Rightarrow> int \<Rightarrow> (int \<times> rat) list option" where
  "no_prophet df periods = None"

definition empty_cache :: forecasts_cache where
  "empty_cache = Map.empty"

subsection \<open>Sequences of requests and example data\<close>

text \<open>
  A sequence of \<^verbatim>\<open>adjust_inventory\<close> calls \<open>(item_id, change, reason, user_id)\<close>, each
  made on the globals the one before left; a call that raises leaves them as they were
  and the next call goes on.
\<close>

fun adjust_calls :: "(string \<times> int \<times> string \<times> string) list \<Rightarrow> store \<Rightarrow> store" where
  "adjust_calls [] s = s"
| "adjust_calls ((iid, chg, rsn, uid) # rest) s =
     adjust_calls rest (snd (adjust_inventory iid chg rsn uid s))"

definition nonneg_counts :: "store \<Rightarrow> bool" where
  "nonneg_counts s = list_all (\<lambda>item. 0 \<le> trayCount item) (inventory_items s)"

definition kale_batch :: inventory_item where
  "kale_batch = \<lparr>item_id = ''a'', variety = ''Kale'', trayCount = 6, harvestDate = 0,
                  weightKg = None, status = ''in-storage''\<rparr>"

definition pea_batch :: inventory_item where
  "pea_batch = \<lparr>item_id = ''b'', variety = ''Pea Shoots'', trayCount = 1, harvestDate = 0,
                 weightKg = None, status = ''in-storage''\<rparr>"

definition demo_store :: store where
  "demo_store = \<lparr>inventory_items = [kale_batch, pea_batch], inventory_logs = [], orders = [],
                  notifications = [], sent_emails = [], low_stock_threshold = 5\<rparr>"

definition new_kale :: inventory_item where
  "new_kale = \<lparr>item_id = ''client-id'', variety = ''Kale'', trayCount = 3, harvestDate = 0,
               weightKg = None, status = ''in-storage''\<rparr>"

definition relabel_kale :: item_update where
  "relabel_kale = \<lparr>upd_id = None, upd_variety = ''Red Kale'', upd_trayCount = 6, upd_harvestDate = 3,
                    upd_weightKg = Some None, upd_status = ''sold''\<rparr>"

definition recount_kale :: item_update where
  "recount_kale = \<lparr>upd_id = None, upd_variety = ''Kale'', upd_trayCount = 9, upd_harvestDate = 0,
                    upd_weightKg = None, upd_status = ''in-storage''\<rparr>"

definition kale_line :: order_item where
  "kale_line = \<lparr>orderId = '''', inventoryItemId = ''a'', line_variety = ''Kale'', quantity = 2\<rparr>"

definition pea_line :: order_item where
  "pea_line = \<lparr>orderId = '''', inventoryItemId = ''b'', line_variety = ''Pea Shoots'', quantity = 5\<rparr>"

definition ghost_line :: order_item where
  "ghost_line = \<lparr>orderId = '''', inventoryItemId = ''zz'', line_variety = ''Radish'', quantity = 1\<rparr>"

definition order_request :: "order_item list \<Rightarrow> order" where
  "order_request lines = \<lparr>order_id = ''client-id'', customerName = ''Ada'', customerContact = None,
                           orderDate = 0, pickupDate = 9, order_status = ''pending'', items = lines\<rparr>"

definition completed_order :: order where
  "completed_order = \<lparr>order_id = ''o-done'', customerName = ''Ada'', customerContact = None,
                       orderDate = 1, pickupDate = 9, order_status = ''completed'',
                       items = [kale_line\<lparr>orderId := ''o-done''\<rparr>]\<rparr>"

definition cancelled_order :: order where
  "cancelled_order = \<lparr>order_id = ''o-gone'', customerName = ''Bob'', customerContact = None,
                       orderDate = 2, pickupDate = 9, order_status = ''cancelled'',
                       items = [kale_line\<lparr>orderId := ''o-gone''\<rparr>]\<rparr>"

definition order_store :: store where
  "order_store = demo_store\<lparr>orders := [completed_order, cancelled_order]\<rparr>"

definition recent_order :: order where
  "recent_order = \<lparr>order_id = ''o-recent'', customerName = ''Ada'', customerContact = None,
                    orderDate = 738990 * day_us, pickupDate = 738995 * day_us,
                    order_status = ''completed'', items = [kale_line\<lparr>orderId := ''o-recent''\<rparr>]\<rparr>"

definition sales_store :: store where
  "sales_store = demo_store\<lparr>orders := [recent_order, cancelled_order]\<rparr>"

section \<open>Properties\<close>

subsection \<open>Lookup and the three outcomes of an adjustment\<close>

lemma first_index_SomeD:
  "first_index P xs = Some i \<Longrightarrow> i < length xs \<and> P (xs ! i) \<and> (\<forall>j<i. \<not> P (xs ! j))"
proof (induction xs arbitrary: i)
  case Nil
  then show ?case by simp
next
  case (Cons x xs)
  show ?case
  proof (cases "P x")
    case True
    with Cons.prems show ?thesis by simp
  next
    case False
    with Cons.prems obtain k where k: "first_index P xs = Some k" "i = Suc k"
      by auto
    from Cons.IH [OF k(1)] False k(2) show ?thesis
      by (auto simp: less_Suc_eq_0_disj)
  qed
qed

lemma adjust_inventory_not_found:
  "first_index (\<lambda>item. item_id item = iid) (inventory_items s) = None \<Longrightarrow>
   adjust_inventory iid chg rsn uid s =
     (Inl (HTTPException 404 (''Inventory item '' @ iid @ '' not found for adjustment'')), s)"
  by (simp add: adjust_inventory_def)

lemma adjust_inventory_negative:
  "first_index (\<lambda>item. item_id item = iid) (inventory_items s) = Some index \<Longrightarrow>
   trayCount (inventory_items s ! index) + chg < 0 \<Longrightarrow>
   \<exists>d. adjust_inventory iid chg rsn uid s = (Inl (HTTPException 400 d), s)"
  by (simp add: adjust_inventory_def Let_def)

lemma adjust_inventory_ok:
  assumes "first_index (\<lambda>item. item_id item = iid) (inventory_items s) = Some index"
    and "0 \<le> trayCount (inventory_items s ! index) + chg"
  shows "fst (adjust_inventory iid chg rsn uid s) = Inr ()"
    and "inventory_items (snd (adjust_inventory iid chg rsn uid s)) =
           (inventory_items s)[index := (inventory_items s ! index)
              \<lparr>trayCount := trayCount (inventory_items s ! index) + chg\<rparr>]"
    and "inventory_logs (snd (adjust_inventory iid chg rsn uid s)) =
           inventory_logs s @ [\<lparr>itemId = iid, change = chg, reason = rsn, userId = uid\<rparr>]"
    and "orders (snd (adjust_inventory iid chg rsn uid s)) = orders s"
    and "low_stock_threshold (snd (adjust_inventory iid chg rsn uid s)) = low_stock_threshold s"
  using assms by (simp_all add: adjust_inventory_def Let_def)

lemma adjust_inventory_error_unchanged:
  "fst (adjust_inventory iid chg rsn uid s) = Inl e \<Longrightarrow> snd (adjust_inventory iid chg rsn uid s) = s"
  by (auto simp: adjust_inventory_def Let_def split: option.splits if_splits)

subsection \<open>Non-negativity of tray counts\<close>

lemma adjust_inventory_nonneg:
  "nonneg_counts s \<Longrightarrow> nonneg_counts (snd (adjust_inventory iid chg rsn uid s))"
proof (cases "first_index (\<lambda>item. item_id item = iid) (inventory_items s)")
  case None
  then show "nonneg_counts s \<Longrightarrow> ?thesis"
    by (simp add: adjust_inventory_not_found)
next
  case (Some index)
  assume nn: "nonneg_counts s"
  show ?thesis
  proof (cases "trayCount (inventory_items s ! index) + chg < 0")
    case True
    from adjust_inventory_negative [OF Some True] nn show ?thesis
      by (metis snd_conv)
  next
    case False
    then have ok: "0 \<le> trayCount (inventory_items s ! index) + chg" by simp
    from nn have "\<forall>x\<in>set (inventory_items s). 0 \<le> trayCount x"
      by (simp add: nonneg_counts_def list_all_iff)
    with ok have "\<forall>x\<in>set ((inventory_items s)[index := (inventory_items s ! index)
              \<lparr>trayCount := trayCount (inventory_items s ! index) + chg\<rparr>]). 0 \<le> trayCount x"
      by (auto dest!: set_update_subset_insert [THEN subsetD])
    then show ?thesis
      by (simp add: nonneg_counts_def list_all_iff adjust_inventory_ok(2) [OF Some ok])
  qed
qed

lemma adjust_calls_nonneg:
  "nonneg_counts s \<Longrightarrow> nonneg_counts (adjust_calls calls s)"
  by (induction calls s rule: adjust_calls.induct) (simp_all add: adjust_inventory_nonneg)

text \<open>
  Claim C3. For a batch that \<^verbatim>\<open>adjust_inventory\<close> finds, the call raises the 400
  error (the ledger's InvalidAdjustment) exactly when the current count plus the change
  is negative. Whenever the call raises, the globals are what they were before: the
  count is unchanged and no log entry is appended. So a store whose counts are all
  non-negative keeps them non-negative through any sequence of adjust calls.
\<close>

theorem adjust_inventory_invalid_adjustment:
  "(first_index (\<lambda>item. item_id item = iid) (inventory_items s) = Some index \<longrightarrow>
      ((\<exists>d. fst (adjust_inventory iid chg rsn uid s) = Inl (HTTPException 400 d))
         \<longleftrightarrow> trayCount (inventory_items s ! index) + chg < 0))
   \<and> ((\<exists>e. fst (adjust_inventory iid chg rsn uid s) = Inl e) \<longrightarrow>
         snd (adjust_inventory iid chg rsn uid s) = s)
   \<and> (nonneg_counts s \<longrightarrow> nonneg_counts (adjust_calls calls s))"
proof (intro conjI impI)
  assume idx: "first_index (\<lambda>item. item_id item = iid) (inventory_items s) = Some index"
  show "(\<exists>d. fst (adjust_inventory iid chg rsn uid s) = Inl (HTTPException 400 d))
          \<longleftrightarrow> trayCount (inventory_items s ! index) + chg < 0"
  proof (cases "trayCount (inventory_items s ! index) + chg < 0")
    case True
    from adjust_inventory_negative [OF idx True, of rsn uid] show ?thesis
      using True by auto
  next
    case False
    then have "fst (adjust_inventory iid chg rsn uid s) = Inr ()"
      using adjust_inventory_ok(1) [OF idx] by simp
    with False show ?thesis by simp
  qed
next
  assume "\<exists>e. fst (adjust_inventory iid chg rsn uid s) = Inl e"
  then show "snd (adjust_inventory iid chg rsn uid s) = s"
    by (auto dest: adjust_inventory_error_unchanged)
next
  assume "nonneg_counts s"
  then show "nonneg_counts (adjust_calls calls s)"
    by (rule adjust_calls_nonneg)
qed

theorem adjust_inventory_invalid_adjustment_witness:
  "first_index (\<lambda>item. item_id item = ''a'') (inventory_items demo_store) = Some 0
   \<and> trayCount (inventory_items demo_store ! 0) + (- 7) < 0
   \<and> (\<exists>d. fst (adjust_inventory ''a'' (- 7) ''spoiled'' ''system'' demo_store) = Inl (HTTPException 400 d))
   \<and> snd (adjust_inventory ''a'' (- 7) ''spoiled'' ''system'' demo_store) = demo_store
   \<and> nonneg_counts demo_store
   \<and> nonneg_counts (adjust_calls [(''a'', - 4, ''sold'', ''system''), (''a'', - 4, ''sold'', ''system''),
        (''b'', 2, ''restock'', ''system'')] demo_store)"
  using adjust_inventory_invalid_adjustment
    [of "''a''" demo_store 0 "- 7" "''spoiled''" "''system''"
        "[(''a'', - 4, ''sold'', ''system''), (''a'', - 4, ''sold'', ''system''), (''b'', 2, ''restock'', ''system'')]"]
  by (simp add: demo_store_def kale_batch_def pea_batch_def nonneg_counts_def adjust_inventory_def Let_def)

subsection \<open>Low-stock alerts\<close>







subsection \<open>Batch creation\<close>

lemma first_index_snoc_fresh:
  "first_index P xs = None \<Longrightarrow> P x \<Longrightarrow> first_index P (xs @ [x]) = Some (length xs)"
  by (induction xs) (auto split: if_splits)

text \<open>
  Claim C1 (conservation at creation), as the code has it. \<^verbatim>\<open>create_inventory_item\<close>
  appends the new batch with \<^verbatim>\<open>trayCount = n\<close> already set and then calls
  \<^verbatim>\<open>adjust_inventory(new_id, n, "Manual creation")\<close>, which adds \<open>n\<close> to the stored
  count. For a fresh id and \<open>n \<ge> 0\<close> the call succeeds, the log gains exactly one entry
  with change \<open>n\<close>, and the created batch holds \<open>2 * n\<close> trays: the count equals the
  sum of the logged changes only when \<open>n = 0\<close>.
\<close>

theorem create_inventory_item_doubles_count:
  assumes "0 \<le> trayCount item_data"
    and "status item_data \<in> set valid_item_statuses"
    and "first_index (\<lambda>item. item_id item = new_id) (inventory_items s) = None"
  shows "\<exists>created s'. create_inventory_item item_data new_id now s = (Inr created, s')
           \<and> item_id created = new_id
           \<and> inventory_items s' = inventory_items s @ [created]
           \<and> trayCount created = 2 * trayCount item_data
           \<and> inventory_logs s' = inventory_logs s @
                [\<lparr>itemId = new_id, change = trayCount item_data,
                  reason = ''Manual creation'', userId = ''system''\<rparr>]"
proof -
  define item_dict where "item_dict = item_data\<lparr>item_id := new_id, harvestDate := now\<rparr>"
  define s1 where "s1 = s\<lparr>inventory_items := inventory_items s @ [item_dict]\<rparr>"
  define n where "n = trayCount item_data"
  have idx: "first_index (\<lambda>item. item_id item = new_id) (inventory_items s1) = Some (length (inventory_items s))"
    using assms(3) by (simp add: s1_def item_dict_def first_index_snoc_fresh)
  have cur: "inventory_items s1 ! length (inventory_items s) = item_dict"
    by (simp add: s1_def)
  have nn: "0 \<le> trayCount (inventory_items s1 ! length (inventory_items s)) + n"
    using assms(1) by (simp add: cur item_dict_def n_def)
  obtain r s2 where adj: "adjust_inventory new_id n ''Manual creation'' ''system'' s1 = (r, s2)"
    by (cases "adjust_inventory new_id n ''Manual creation'' ''system'' s1")
  from adjust_inventory_ok [OF idx nn, of "''Manual creation''" "''system''"] adj
  have r: "r = Inr ()"
    and items2: "inventory_items s2 = (inventory_items s1)[length (inventory_items s) :=
                   item_dict\<lparr>trayCount := trayCount item_dict + n\<rparr>]"
    and logs2: "inventory_logs s2 = inventory_logs s1 @
                  [\<lparr>itemId = new_id, change = n, reason = ''Manual creation'', userId = ''system''\<rparr>]"
    by (simp_all add: cur)
  have items2': "inventory_items s2 = inventory_items s @ [item_dict\<lparr>trayCount := n + n\<rparr>]"
    by (simp add: items2 s1_def item_dict_def n_def)
  have res: "create_inventory_item item_data new_id now s = (Inr (last (inventory_items s2)), s2)"
    using assms(1,2) adj r
    by (simp add: create_inventory_item_def Let_def item_dict_def [symmetric] s1_def [symmetric] n_def [symmetric])
  show ?thesis
    using res items2' logs2
    by (simp add: item_dict_def n_def s1_def)
qed

theorem create_inventory_item_doubles_count_witness:
  "0 \<le> trayCount new_kale \<and> status new_kale \<in> set valid_item_statuses
   \<and> first_index (\<lambda>item. item_id item = ''n1'') (inventory_items demo_store) = None
   \<and> (\<exists>created s'. create_inventory_item new_kale ''n1'' 100 demo_store = (Inr created, s')
         \<and> trayCount created = 6
         \<and> trayCount (last (inventory_items s')) = 6
         \<and> map change (filter (\<lambda>l. itemId l = ''n1'') (inventory_logs s')) = [3])"
proof -
  have h1: "0 \<le> trayCount new_kale" by (simp add: new_kale_def)
  have h2: "status new_kale \<in> set valid_item_statuses"
    by (simp add: new_kale_def valid_item_statuses_def)
  have h3: "first_index (\<lambda>item. item_id item = ''n1'') (inventory_items demo_store) = None"
    by (simp add: demo_store_def kale_batch_def pea_batch_def)
  from create_inventory_item_doubles_count [OF h1 h2 h3, of 100]
  obtain created s' where c: "create_inventory_item new_kale ''n1'' 100 demo_store = (Inr created, s')"
    "item_id created = ''n1''" "inventory_items s' = inventory_items demo_store @ [created]"
    "trayCount created = 2 * trayCount new_kale"
    "inventory_logs s' = inventory_logs demo_store @
                [\<lparr>itemId = ''n1'', change = trayCount new_kale,
                  reason = ''Manual creation'', userId = ''system''\<rparr>]"
    by blast
  have "trayCount created = 6" "trayCount (last (inventory_items s')) = 6"
    "map change (filter (\<lambda>l. itemId l = ''n1'') (inventory_logs s')) = [3]"
    using c(2-5) by (simp_all add: new_kale_def demo_store_def)
  with h1 h2 h3 c(1) show ?thesis by simp
qed

subsection \<open>The non-ledger update\<close>

lemma update_inventory_item_error_unchanged:
  "fst (update_inventory_item iid u s) = Inl e \<Longrightarrow> snd (update_inventory_item iid u s) = s"
  by (auto simp: update_inventory_item_def Let_def split: option.splits if_splits)

lemma map_trayCount_update:
  "index < length xs \<Longrightarrow> trayCount y = trayCount (xs ! index) \<Longrightarrow>
   map trayCount (xs[index := y]) = map trayCount xs"
  by (simp add: map_update list_update_same_conv)

text \<open>
  Claim C9. \<^verbatim>\<open>update_inventory_item\<close> never changes a tray count. For a batch it finds,
  a request whose \<^verbatim>\<open>trayCount\<close> differs from the stored one raises; whenever the route
  raises, the globals are exactly what they were. When it returns, the entry at the
  batch's index is replaced by the returned item, whose \<^verbatim>\<open>trayCount\<close> is the stored
  one; the tray counts of all batches and the adjustment log are as before.
\<close>

theorem update_inventory_item_keeps_trayCount:
  "(first_index (\<lambda>item. item_id item = iid) (inventory_items s) = Some index
      \<and> upd_trayCount u \<noteq> trayCount (inventory_items s ! index) \<longrightarrow>
        (\<exists>e. fst (update_inventory_item iid u s) = Inl e))
   \<and> ((\<exists>e. fst (update_inventory_item iid u s) = Inl e) \<longrightarrow> snd (update_inventory_item iid u s) = s)
   \<and> (fst (update_inventory_item iid u s) = Inr r \<longrightarrow>
        (\<exists>index. first_index (\<lambda>item. item_id item = iid) (inventory_items s) = Some index
           \<and> inventory_items (snd (update_inventory_item iid u s)) = (inventory_items s)[index := r]
           \<and> trayCount r = trayCount (inventory_items s ! index))
        \<and> map trayCount (inventory_items (snd (update_inventory_item iid u s)))
            = map trayCount (inventory_items s)
        \<and> inventory_logs (snd (update_inventory_item iid u s)) = inventory_logs s)"
proof (intro conjI impI)
  assume "first_index (\<lambda>item. item_id item = iid) (inventory_items s) = Some index
      \<and> upd_trayCount u \<noteq> trayCount (inventory_items s ! index)"
  then show "\<exists>e. fst (update_inventory_item iid u s) = Inl e"
    by (simp add: update_inventory_item_def Let_def)
next
  assume "\<exists>e. fst (update_inventory_item iid u s) = Inl e"
  then show "snd (update_inventory_item iid u s) = s"
    by (auto dest: update_inventory_item_error_unchanged)
next
  assume ok: "fst (update_inventory_item iid u s) = Inr r"
  then obtain i where i: "first_index (\<lambda>item. item_id item = iid) (inventory_items s) = Some i"
    by (cases "first_index (\<lambda>item. item_id item = iid) (inventory_items s)")
       (auto simp: update_inventory_item_def)
  from ok i have same: "upd_trayCount u = trayCount (inventory_items s ! i)"
    and r: "r = merge_update (inventory_items s ! i) u"
    and s': "snd (update_inventory_item iid u s) = s\<lparr>inventory_items := (inventory_items s)[i := r]\<rparr>"
    by (auto simp: update_inventory_item_def Let_def split: if_splits)
  have tc: "trayCount r = trayCount (inventory_items s ! i)"
    by (simp add: r merge_update_def same)
  from i s' tc
  show "\<exists>index. first_index (\<lambda>item. item_id item = iid) (inventory_items s) = Some index
           \<and> inventory_items (snd (update_inventory_item iid u s)) = (inventory_items s)[index := r]
           \<and> trayCount r = trayCount (inventory_items s ! index)"
    by simp
  from first_index_SomeD [OF i] have "i < length (inventory_items s)" by simp
  then show "map trayCount (inventory_items (snd (update_inventory_item iid u s)))
            = map trayCount (inventory_items s)"
    by (simp add: s' map_trayCount_update tc)
  show "inventory_logs (snd (update_inventory_item iid u s)) = inventory_logs s"
    by (simp add: s')
qed

theorem update_inventory_item_keeps_trayCount_witness:
  "first_index (\<lambda>item. item_id item = ''a'') (inventory_items demo_store) = Some 0
   \<and> upd_trayCount recount_kale \<noteq> trayCount (inventory_items demo_store ! 0)
   \<and> (\<exists>e. fst (update_inventory_item ''a'' recount_kale demo_store) = Inl e)
   \<and> snd (update_inventory_item ''a'' recount_kale demo_store) = demo_store
   \<and> fst (update_inventory_item ''a'' relabel_kale demo_store)
       = Inr (kale_batch\<lparr>variety := ''Red Kale'', harvestDate := 3, status := ''sold''\<rparr>)
   \<and> map trayCount (inventory_items (snd (update_inventory_item ''a'' relabel_kale demo_store))) = [6, 1]"
  using update_inventory_item_keeps_trayCount [of "''a''" demo_store 0 recount_kale kale_batch]
    update_inventory_item_keeps_trayCount [of "''a''" demo_store 0 relabel_kale
       "kale_batch\<lparr>variety := ''Red Kale'', harvestDate := 3, status := ''sold''\<rparr>"]
  by (simp add: demo_store_def kale_batch_def pea_batch_def recount_kale_def relabel_kale_def
        update_inventory_item_def merge_update_def valid_item_statuses_def Let_def)

subsection \<open>Reading the log of a batch\<close>








subsection \<open>Order creation\<close>

lemmas demo_defs = demo_store_def kale_batch_def pea_batch_def kale_line_def pea_line_def
  ghost_line_def order_request_def completed_order_def cancelled_order_def order_store_def

text \<open>
  Claim C2 (rollback of a rejected order), as the code has it. \<^verbatim>\<open>create_order\<close> looks
  the batch of each line up itself and raises 404 before it reaches the \<^verbatim>\<open>try\<close> block
  that reverts. An order of 2 trays of batch \<^verbatim>\<open>a\<close> followed by a line for the unknown
  batch \<^verbatim>\<open>zz\<close> fails with that 404 and persists no order, but batch \<^verbatim>\<open>a\<close> stays
  debited (6 to 4) and the log holds the debit alone. The sibling path does revert: with
  a second line asking 5 trays of batch \<^verbatim>\<open>b\<close> (which holds 1), the order is rejected
  with a 400 that carries the ledger's reason, batch \<^verbatim>\<open>a\<close> is back at 6, and the log
  holds the debit and the equal credit.
\<close>

theorem create_order_missing_batch_keeps_debit:
  "fst (create_order (order_request [kale_line, ghost_line]) ''o1'' 7 demo_store)
     = Inl (HTTPException 404 ''Inventory item zz for order item 2 not found'')
   \<and> map trayCount (inventory_items demo_store) = [6, 1]
   \<and> map trayCount (inventory_items
        (snd (create_order (order_request [kale_line, ghost_line]) ''o1'' 7 demo_store))) = [4, 1]
   \<and> map change (inventory_logs
        (snd (create_order (order_request [kale_line, ghost_line]) ''o1'' 7 demo_store))) = [- 2]
   \<and> orders (snd (create_order (order_request [kale_line, ghost_line]) ''o1'' 7 demo_store)) = []
   \<and> fst (create_order (order_request [kale_line, pea_line]) ''o1'' 7 demo_store)
     = Inl (HTTPException 400 (''Insufficient stock for Pea Shoots (Item ID: b): ''
          @ ''Adjustment for item b results in negative inventory (-4) for reason: Order o1''))
   \<and> map trayCount (inventory_items
        (snd (create_order (order_request [kale_line, pea_line]) ''o1'' 7 demo_store))) = [6, 1]
   \<and> map change (inventory_logs
        (snd (create_order (order_request [kale_line, pea_line]) ''o1'' 7 demo_store))) = [- 2, 2]
   \<and> orders (snd (create_order (order_request [kale_line, pea_line]) ''o1'' 7 demo_store)) = []"
proof -
  have str: "str_int 2 = ''2''" "str_int (- 4) = ''-4''" "str_int 4 = ''4''"
    by code_simp+
  show ?thesis
    by (simp add: demo_defs create_order_def adjust_inventory_def Let_def str)
qed

text \<open>
  Claim C6, as amended. \<^verbatim>\<open>create_order\<close> has no check on the number of lines: a
  request with no lines succeeds. The order is stored with the new id, the current time,
  no lines and status \<^verbatim>\<open>pending\<close>; nothing else in the globals changes, so no
  inventory is adjusted and nothing is logged.
\<close>

theorem create_order_accepts_empty_order:
  "items order_data = [] \<Longrightarrow>
   create_order order_data new_id now s =
     (Inr (order_data\<lparr>order_id := new_id, orderDate := now, items := [], order_status := ''pending''\<rparr>),
      s\<lparr>orders := orders s @
         [order_data\<lparr>order_id := new_id, orderDate := now, items := [], order_status := ''pending''\<rparr>]\<rparr>)"
  by (simp add: create_order_def Let_def)

theorem create_order_accepts_empty_order_witness:
  "items (order_request []) = []
   \<and> create_order (order_request []) ''o1'' 7 demo_store =
     (Inr ((order_request [])\<lparr>order_id := ''o1'', orderDate := 7, items := [], order_status := ''pending''\<rparr>),
      demo_store\<lparr>orders := orders demo_store @
         [(order_request [])\<lparr>order_id := ''o1'', orderDate := 7, items := [], order_status := ''pending''\<rparr>]\<rparr>)"
  using create_order_accepts_empty_order [of "order_request []" "''o1''" 7 demo_store]
  by (simp add: order_request_def)

text \<open>
  Claim C6 as stated fails: the request with no lines returns an order, and the order is
  in \<^verbatim>\<open>orders\<close> afterwards.
\<close>

theorem empty_order_is_persisted:
  "fst (create_order (order_request []) ''o1'' 7 demo_store)
     = Inr \<lparr>order_id = ''o1'', customerName = ''Ada'', customerContact = None, orderDate = 7,
            pickupDate = 9, order_status = ''pending'', items = []\<rparr>
   \<and> orders demo_store = []
   \<and> map order_id (orders (snd (create_order (order_request []) ''o1'' 7 demo_store))) = [''o1'']"
  by (simp add: demo_defs create_order_def Let_def)

subsection \<open>Order status updates and cancellation\<close>

lemma adjust_inventory_orders [simp]:
  "orders (snd (adjust_inventory iid chg rsn uid s)) = orders s"
  by (simp add: adjust_inventory_def Let_def split: option.splits)

lemma cancel_adjustments_orders [simp]:
  "orders (cancel_adjustments oid its s) = orders s"
  by (induction oid its s rule: cancel_adjustments.induct) simp_all

lemma first_index_update_same:
  "i < length xs \<Longrightarrow> P y = P (xs ! i) \<Longrightarrow> first_index P (xs[i := y]) = first_index P xs"
proof (induction xs arbitrary: i)
  case Nil
  then show ?case by simp
next
  case (Cons x xs)
  then show ?case by (cases i) simp_all
qed

lemma cancelled_is_valid: "''cancelled'' \<in> set valid_statuses"
  by (simp add: valid_statuses_def)

lemma update_order_status_already_cancelled:
  assumes "first_index (\<lambda>ord. order_id ord = oid) (orders s) = Some index"
    and "order_status (orders s ! index) = ''cancelled''"
  shows "update_order_status oid ''cancelled'' s = (Inr (orders s ! index), s)"
proof -
  have same: "(orders s ! index)\<lparr>order_status := ''cancelled''\<rparr> = orders s ! index"
    using assms(2) by (metis order.surjective order.update_convs(6))
  show ?thesis
    using assms(1) by (simp add: update_order_status_def cancelled_is_valid Let_def assms(2) same)
qed

lemma update_order_status_cancel_found:
  assumes idx: "first_index (\<lambda>ord. order_id ord = oid) (orders s) = Some index"
  shows "\<exists>s'. update_order_status oid ''cancelled'' s = (Inr (orders s' ! index), s')
           \<and> first_index (\<lambda>ord. order_id ord = oid) (orders s') = Some index
           \<and> order_status (orders s' ! index) = ''cancelled''"
proof -
  define s1 where "s1 = (if order_status (orders s ! index) \<noteq> ''cancelled''
                    then cancel_adjustments oid (items (orders s ! index)) s else s)"
  define s2 where "s2 = s1\<lparr>orders := (orders s1)[index := (orders s1 ! index)\<lparr>order_status := ''cancelled''\<rparr>]\<rparr>"
  have o1: "orders s1 = orders s" by (simp add: s1_def)
  from first_index_SomeD [OF idx] have lt: "index < length (orders s)" by simp
  have res: "update_order_status oid ''cancelled'' s = (Inr (orders s2 ! index), s2)"
    using idx by (simp add: update_order_status_def cancelled_is_valid Let_def s1_def s2_def)
  have "first_index (\<lambda>ord. order_id ord = oid) (orders s2) = Some index"
    using idx lt by (simp add: s2_def o1 first_index_update_same)
  moreover have "order_status (orders s2 ! index) = ''cancelled''"
    using lt by (simp add: s2_def o1)
  ultimately show ?thesis using res by blast
qed

lemma update_order_status_not_found:
  "first_index (\<lambda>ord. order_id ord = oid) (orders s) = None \<Longrightarrow>
   update_order_status oid ''cancelled'' s = (Inl (HTTPException 404 ''Order not found''), s)"
  by (simp add: update_order_status_def cancelled_is_valid)

text \<open>
  Claim C4. Cancelling an order that is already \<^verbatim>\<open>cancelled\<close> is a no-op:
  \<^verbatim>\<open>update_order_status\<close> returns the stored order as it is and \<^verbatim>\<open>cancel_order\<close>
  returns, both with the globals (ledger, log, orders, notifications) exactly as they
  were. Hence cancelling any order id twice gives the same result and the same globals
  as cancelling it once.
\<close>

theorem cancel_order_idempotent:
  "(first_index (\<lambda>ord. order_id ord = oid) (orders s) = Some index
      \<and> order_status (orders s ! index) = ''cancelled'' \<longrightarrow>
        update_order_status oid ''cancelled'' s = (Inr (orders s ! index), s)
        \<and> cancel_order oid s = (Inr (), s))
   \<and> cancel_order oid (snd (cancel_order oid s)) = cancel_order oid s"
proof (intro conjI impI)
  assume h: "first_index (\<lambda>ord. order_id ord = oid) (orders s) = Some index
      \<and> order_status (orders s ! index) = ''cancelled''"
  then show u: "update_order_status oid ''cancelled'' s = (Inr (orders s ! index), s)"
    by (simp add: update_order_status_already_cancelled)
  then show "cancel_order oid s = (Inr (), s)"
    by (simp add: cancel_order_def)
next
  show "cancel_order oid (snd (cancel_order oid s)) = cancel_order oid s"
  proof (cases "first_index (\<lambda>ord. order_id ord = oid) (orders s)")
    case None
    then show ?thesis
      by (simp add: cancel_order_def update_order_status_not_found)
  next
    case (Some index)
    from update_order_status_cancel_found [OF Some]
    obtain s' where s': "update_order_status oid ''cancelled'' s = (Inr (orders s' ! index), s')"
      "first_index (\<lambda>ord. order_id ord = oid) (orders s') = Some index"
      "order_status (orders s' ! index) = ''cancelled''"
      by blast
    have first: "cancel_order oid s = (Inr (), s')"
      using s'(1) by (simp add: cancel_order_def)
    have "update_order_status oid ''cancelled'' s' = (Inr (orders s' ! index), s')"
      using s'(2,3) by (rule update_order_status_already_cancelled)
    then have "cancel_order oid s' = (Inr (), s')"
      by (simp add: cancel_order_def)
    with first show ?thesis by simp
  qed
qed

theorem cancel_order_idempotent_witness:
  "first_index (\<lambda>ord. order_id ord = ''o-gone'') (orders order_store) = Some 1
   \<and> order_status (orders order_store ! 1) = ''cancelled''
   \<and> update_order_status ''o-gone'' ''cancelled'' order_store = (Inr cancelled_order, order_store)
   \<and> cancel_order ''o-gone'' order_store = (Inr (), order_store)
   \<and> cancel_order ''o-done'' (snd (cancel_order ''o-done'' order_store)) = cancel_order ''o-done'' order_store
   \<and> map trayCount (inventory_items (snd (cancel_order ''o-done'' order_store))) = [8, 1]"
proof -
  have h: "first_index (\<lambda>ord. order_id ord = ''o-gone'') (orders order_store) = Some 1
      \<and> order_status (orders order_store ! 1) = ''cancelled''"
    by (simp add: demo_defs)
  have at: "orders order_store ! 1 = cancelled_order"
    by (simp add: order_store_def)
  have once: "cancel_order ''o-done'' order_store = (Inr (), snd (cancel_order ''o-done'' order_store))"
    by (simp add: demo_defs cancel_order_def update_order_status_def valid_statuses_def
          adjust_inventory_def Let_def)
  have counts: "map trayCount (inventory_items (snd (cancel_order ''o-done'' order_store))) = [8, 1]"
    by (simp add: demo_defs cancel_order_def update_order_status_def valid_statuses_def
          adjust_inventory_def Let_def)
  from cancel_order_idempotent [of "''o-gone''" order_store 1] h at
    cancel_order_idempotent [of "''o-done''" order_store 0] counts
  show ?thesis by simp
qed

lemma update_order_status_ledger:
  "inventory_items (snd (update_order_status oid status_val s)) =
     inventory_items (case first_index (\<lambda>ord. order_id ord = oid) (orders s) of
        None \<Rightarrow> s
      | Some index \<Rightarrow>
          if status_val = ''cancelled'' \<and> order_status (orders s ! index) \<noteq> ''cancelled''
          then cancel_adjustments oid (items (orders s ! index)) s else s)"
  "inventory_logs (snd (update_order_status oid status_val s)) =
     inventory_logs (case first_index (\<lambda>ord. order_id ord = oid) (orders s) of
        None \<Rightarrow> s
      | Some index \<Rightarrow>
          if status_val = ''cancelled'' \<and> order_status (orders s ! index) \<noteq> ''cancelled''
          then cancel_adjustments oid (items (orders s ! index)) s else s)"
  by (simp_all add: update_order_status_def Let_def cancelled_is_valid split: option.splits)

text \<open>
  Claim C5, as amended. The guard of \<^verbatim>\<open>update_order_status\<close> is
  \<^verbatim>\<open>status_val == "cancelled" and original_status != "cancelled"\<close>, read on the status
  stored when the update arrives. One status update to anything but \<^verbatim>\<open>cancelled\<close>
  leaves the tray counts and the log as they were, and so does one update of an order
  whose stored status is \<^verbatim>\<open>cancelled\<close>. One update to \<^verbatim>\<open>cancelled\<close> of an order whose
  stored status is anything else (\<^verbatim>\<open>completed\<close> included) leaves the tray counts and
  the log as the reversal loop over the order's lines leaves them, so \<^verbatim>\<open>completed\<close>
  is not terminal for the ledger. The statement is about each update by itself.
\<close>

theorem update_order_status_reversal_trigger:
  "(status_val \<noteq> ''cancelled'' \<longrightarrow>
      inventory_items (snd (update_order_status oid status_val s)) = inventory_items s
      \<and> inventory_logs (snd (update_order_status oid status_val s)) = inventory_logs s)
   \<and> (first_index (\<lambda>ord. order_id ord = oid) (orders s) = Some index
        \<and> order_status (orders s ! index) = ''cancelled'' \<longrightarrow>
      inventory_items (snd (update_order_status oid status_val s)) = inventory_items s
      \<and> inventory_logs (snd (update_order_status oid status_val s)) = inventory_logs s)
   \<and> (first_index (\<lambda>ord. order_id ord = oid) (orders s) = Some index
        \<and> order_status (orders s ! index) \<noteq> ''cancelled'' \<longrightarrow>
      inventory_items (snd (update_order_status oid ''cancelled'' s))
        = inventory_items (cancel_adjustments oid (items (orders s ! index)) s)
      \<and> inventory_logs (snd (update_order_status oid ''cancelled'' s))
        = inventory_logs (cancel_adjustments oid (items (orders s ! index)) s))"
  by (simp add: update_order_status_ledger split: option.splits)

theorem update_order_status_reversal_trigger_witness:
  "first_index (\<lambda>ord. order_id ord = ''o-gone'') (orders order_store) = Some 1
   \<and> order_status (orders order_store ! 1) = ''cancelled''
   \<and> inventory_items (snd (update_order_status ''o-gone'' ''pending'' order_store)) = inventory_items order_store
   \<and> inventory_logs (snd (update_order_status ''o-gone'' ''cancelled'' order_store)) = inventory_logs order_store
   \<and> first_index (\<lambda>ord. order_id ord = ''o-done'') (orders order_store) = Some 0
   \<and> order_status (orders order_store ! 0) \<noteq> ''cancelled''
   \<and> inventory_items (snd (update_order_status ''o-done'' ''cancelled'' order_store))
        = inventory_items (cancel_adjustments ''o-done'' (items (orders order_store ! 0)) order_store)
   \<and> map change (inventory_logs (cancel_adjustments ''o-done'' (items (orders order_store ! 0)) order_store)) = [2]"
proof -
  have h1: "first_index (\<lambda>ord. order_id ord = ''o-gone'') (orders order_store) = Some 1
      \<and> order_status (orders order_store ! 1) = ''cancelled''"
    by (simp add: demo_defs)
  have h0: "first_index (\<lambda>ord. order_id ord = ''o-done'') (orders order_store) = Some 0
      \<and> order_status (orders order_store ! 0) \<noteq> ''cancelled''"
    by (simp add: demo_defs)
  have c: "map change (inventory_logs (cancel_adjustments ''o-done'' (items (orders order_store ! 0)) order_store)) = [2]"
    by (simp add: demo_defs adjust_inventory_def Let_def)
  from update_order_status_reversal_trigger [of "''pending''" "''o-gone''" order_store 1]
    update_order_status_reversal_trigger [of "''cancelled''" "''o-gone''" order_store 1]
    update_order_status_reversal_trigger [of "''cancelled''" "''o-done''" order_store 0]
    h1 h0 c
  show ?thesis by simp
qed

text \<open>
  Claim C5 as stated fails: an order that is \<^verbatim>\<open>completed\<close> is moved to
  \<^verbatim>\<open>cancelled\<close>, and its 2 trays are credited to batch \<^verbatim>\<open>a\<close> with a log entry
  naming the order.
\<close>

theorem completed_order_cancel_adjusts_ledger:
  "order_status (orders order_store ! 0) = ''completed''
   \<and> order_id (orders order_store ! 0) = ''o-done''
   \<and> fst (update_order_status ''o-done'' ''cancelled'' order_store)
        = Inr (completed_order\<lparr>order_status := ''cancelled''\<rparr>)
   \<and> map trayCount (inventory_items order_store) = [6, 1]
   \<and> inventory_logs order_store = []
   \<and> map trayCount (inventory_items (snd (update_order_status ''o-done'' ''cancelled'' order_store))) = [8, 1]
   \<and> inventory_logs (snd (update_order_status ''o-done'' ''cancelled'' order_store))
        = [\<lparr>itemId = ''a'', change = 2, reason = ''Order o-done cancelled'', userId = ''system''\<rparr>]"
  by (simp add: demo_defs update_order_status_def valid_statuses_def adjust_inventory_def Let_def)

subsection \<open>Forecast fallback and cache\<close>

lemma date_add_in_range:
  "date_min \<le> d \<Longrightarrow> d \<le> date_max \<Longrightarrow> date_min \<le> d + n \<Longrightarrow> d + n \<le> date_max \<Longrightarrow>
   date_add d n = Inr (d + n)"
  by (simp add: date_add_def timedelta_days_def date_min_def date_max_def)

lemma fallback_loop_in_range:
  "\<forall>i\<in>set ns. date_add start_date (int i) = Inr (start_date + int i) \<Longrightarrow>
   fallback_loop start_date avg ns =
     Inr (map (\<lambda>i. \<lparr>point_date = start_date + int i, predictedTrays = avg\<rparr>) ns)"
  by (induction ns) simp_all

lemma fallback_predictions_in_range:
  assumes "date_min \<le> today" and "today \<le> date_max" and "today + 7 * weeks \<le> date_max"
  shows "fallback_predictions py_mean py_round1 df today weeks =
           Inr (map (\<lambda>i. \<lparr>point_date = today + int i,
                            predictedTrays = (if df = [] then 0 else py_round1 (py_mean (map totalTraysSold df)))\<rparr>)
                  [0..<nat (7 * weeks)])"
proof -
  have "\<forall>i\<in>set [0..<nat (weeks * 7)]. date_add today (int i) = Inr (today + int i)"
  proof
    fix i assume "i \<in> set [0..<nat (weeks * 7)]"
    then have "int i < weeks * 7" by auto
    with assms show "date_add today (int i) = Inr (today + int i)"
      by (intro date_add_in_range) auto
  qed
  from fallback_loop_in_range [OF this] show ?thesis
    by (simp add: fallback_predictions_def Let_def mult.commute)
qed

lemma get_demand_forecast_hit:
  "date_add today (7 * weeks) = Inr end_date \<Longrightarrow> cache (today, weeks) = Some cached \<Longrightarrow>
   get_demand_forecast py_mean py_round1 prophet weeks today now s cache = (Inr cached, cache)"
  by (simp add: get_demand_forecast_def)

lemma get_demand_forecast_miss_fallback:
  assumes "cache (today, weeks) = None"
    and "date_add today (7 * weeks) = Inr end_date"
    and "get_historical_sales 60 now s = Inr df"
    and "fallback_predictions py_mean py_round1 df today weeks = Inr points"
    and "length df < 2
         \<or> prophet (map (\<lambda>r. (sale_date r, totalTraysSold r)) df) (weeks * 7) = None
         \<or> (\<exists>forecast_df.
               prophet (map (\<lambda>r. (sale_date r, totalTraysSold r)) df) (weeks * 7) = Some forecast_df
               \<and> filter (\<lambda>(ds, yhat). today \<le> ds \<and> ds \<le> end_date) forecast_df = [])"
  shows "get_demand_forecast py_mean py_round1 prophet weeks today now s cache =
           (Inr \<lparr>periodStart = today, periodEnd = end_date, predictions = points\<rparr>,
            cache((today, weeks) \<mapsto> \<lparr>periodStart = today, periodEnd = end_date, predictions = points\<rparr>))"
  using assms
  by (auto simp: get_demand_forecast_def Let_def split: option.splits)

text \<open>
  Claim C8, as amended. Let today and today plus \<open>7 * weeks\<close> days both be dates
  Python can represent, let the 60-day look-back from now be representable (the
  historical sales \<open>df\<close> are read), and let the key \<open>(today, weeks)\<close> be absent from
  the cache. When the history has fewer than two points, or Prophet raises, or none of
  its rows falls in the forecast period, \<^verbatim>\<open>get_demand_forecast\<close> returns the period
  from today to today plus \<open>7 * weeks\<close> days with exactly one prediction for each of the
  days \<open>today, today + 1, \<dots>\<close> before the end, in order, all with the same value \<open>c\<close>:
  zero when there is no history, otherwise the mean of the historical daily totals as
  \<^verbatim>\<open>round(avg, 1)\<close> reports it. The result is stored under \<open>(today, weeks)\<close>, and a
  later call with the same day and horizon returns that very result and leaves the cache
  as it is, whatever the orders, the clock and Prophet would give by then.
\<close>

theorem get_demand_forecast_fallback:
  assumes "cache (today, weeks) = None"
    and "date_min \<le> today" and "today \<le> date_max"
    and "date_min \<le> today + 7 * weeks" and "today + 7 * weeks \<le> date_max"
    and "get_historical_sales 60 now s = Inr df"
    and "length df < 2
         \<or> prophet (map (\<lambda>r. (sale_date r, totalTraysSold r)) df) (weeks * 7) = None
         \<or> (\<exists>forecast_df.
               prophet (map (\<lambda>r. (sale_date r, totalTraysSold r)) df) (weeks * 7) = Some forecast_df
               \<and> filter (\<lambda>(ds, yhat). today \<le> ds \<and> ds \<le> today + 7 * weeks) forecast_df = [])"
  shows "\<exists>c result cache'.
           get_demand_forecast py_mean py_round1 prophet weeks today now s cache = (Inr result, cache')
           \<and> c = (if df = [] then 0 else py_round1 (py_mean (map totalTraysSold df)))
           \<and> periodStart result = today \<and> periodEnd result = today + 7 * weeks
           \<and> predictions result =
                map (\<lambda>i. \<lparr>point_date = today + int i, predictedTrays = c\<rparr>) [0..<nat (7 * weeks)]
           \<and> cache' = cache((today, weeks) \<mapsto> result)
           \<and> (\<forall>py_mean' py_round1' prophet' now' s'.
                 get_demand_forecast py_mean' py_round1' prophet' weeks today now' s' cache'
                   = (Inr result, cache'))"
proof -
  let ?c = "if df = [] then 0 else py_round1 (py_mean (map totalTraysSold df))"
  let ?points = "map (\<lambda>i. \<lparr>point_date = today + int i, predictedTrays = ?c\<rparr>) [0..<nat (7 * weeks)]"
  let ?result = "\<lparr>periodStart = today, periodEnd = today + 7 * weeks, predictions = ?points\<rparr>"
  let ?cache' = "cache((today, weeks) \<mapsto> ?result)"
  have end_date: "date_add today (7 * weeks) = Inr (today + 7 * weeks)"
    using assms(2-5) by (rule date_add_in_range)
  have fb: "fallback_predictions py_mean py_round1 df today weeks = Inr ?points"
    using assms(2,3,5) by (rule fallback_predictions_in_range)
  have run: "get_demand_forecast py_mean py_round1 prophet weeks today now s cache = (Inr ?result, ?cache')"
    using assms(1) end_date assms(6) fb assms(7) by (rule get_demand_forecast_miss_fallback)
  have again: "\<forall>py_mean' py_round1' prophet' now' s'.
      get_demand_forecast py_mean' py_round1' prophet' weeks today now' s' ?cache' = (Inr ?result, ?cache')"
    by (simp add: get_demand_forecast_hit [OF end_date])
  from run again show ?thesis
    by (intro exI [of _ ?c] exI [of _ ?result] exI [of _ ?cache']) simp
qed

theorem get_demand_forecast_fallback_witness:
  "empty_cache (739000, 1) = None
   \<and> date_min \<le> 739000 \<and> 739000 \<le> date_max
   \<and> date_min \<le> 739000 + 7 * 1 \<and> 739000 + 7 * 1 \<le> date_max
   \<and> get_historical_sales 60 (739000 * day_us + 5) sales_store = Inr [\<lparr>sale_date = 738990, totalTraysSold = 2\<rparr>]
   \<and> fst (get_demand_forecast exact_mean id no_prophet 1 739000 (739000 * day_us + 5) sales_store empty_cache)
        = Inr \<lparr>periodStart = 739000, periodEnd = 739007,
               predictions = map (\<lambda>d. \<lparr>point_date = d, predictedTrays = 2\<rparr>)
                 [739000, 739001, 739002, 739003, 739004, 739005, 739006]\<rparr>
   \<and> get_demand_forecast (\<lambda>ys. 0) id (\<lambda>df periods. Some [(739003, 9)]) 1 739000 (739000 * day_us + 77) demo_store
         (snd (get_demand_forecast exact_mean id no_prophet 1 739000 (739000 * day_us + 5) sales_store empty_cache))
        = get_demand_forecast exact_mean id no_prophet 1 739000 (739000 * day_us + 5) sales_store empty_cache"
proof -
  have hist: "get_historical_sales 60 (739000 * day_us + 5) sales_store
      = Inr [\<lparr>sale_date = 738990, totalTraysSold = 2\<rparr>]"
    by (simp add: get_historical_sales_def datetime_sub_days_def timedelta_days_def datetime_min_def
          datetime_max_def date_min_def date_max_def sales_store_def recent_order_def demo_defs
          day_us_def date_of_def Let_def)
  have miss: "empty_cache (739000, 1) = None"
    by (simp add: empty_cache_def)
  have range: "date_min \<le> 739000" "739000 \<le> date_max"
    "date_min \<le> 739000 + 7 * 1" "739000 + 7 * 1 \<le> date_max"
    by (simp_all add: date_min_def date_max_def)
  have few: "length [\<lparr>sale_date = 738990, totalTraysSold = 2\<rparr>] < 2
         \<or> no_prophet (map (\<lambda>r. (sale_date r, totalTraysSold r)) [\<lparr>sale_date = 738990, totalTraysSold = 2\<rparr>]) (1 * 7) = None
         \<or> (\<exists>forecast_df.
               no_prophet (map (\<lambda>r. (sale_date r, totalTraysSold r)) [\<lparr>sale_date = 738990, totalTraysSold = 2\<rparr>]) (1 * 7)
                 = Some forecast_df
               \<and> filter (\<lambda>(ds, yhat). 739000 \<le> ds \<and> ds \<le> 739000 + 7 * 1) forecast_df = [])"
    by simp
  have up: "[0..<7] = [0, 1, 2, 3, 4, 5, 6]"
    by (simp add: upt_rec)
  from get_demand_forecast_fallback
    [where cache = empty_cache and today = 739000 and weeks = 1 and now = "739000 * day_us + 5"
       and s = sales_store and prophet = no_prophet and py_mean = exact_mean and ?py_round1.0 = id
       and df = "[\<lparr>sale_date = 738990, totalTraysSold = 2\<rparr>]",
     OF miss range hist few]
  obtain c result cache' where r:
    "get_demand_forecast exact_mean id no_prophet 1 739000 (739000 * day_us + 5) sales_store empty_cache
       = (Inr result, cache')"
    "c = (if [\<lparr>sale_date = 738990, totalTraysSold = 2\<rparr>] = [] then 0
          else id (exact_mean (map totalTraysSold [\<lparr>sale_date = 738990, totalTraysSold = (2::int)\<rparr>])))"
    "periodStart result = 739000" "periodEnd result = 739000 + 7 * 1"
    "predictions result = map (\<lambda>i. \<lparr>point_date = 739000 + int i, predictedTrays = c\<rparr>) [0..<nat (7 * 1)]"
    "\<forall>py_mean' py_round1' prophet' now' s'.
        get_demand_forecast py_mean' py_round1' prophet' 1 739000 now' s' cache' = (Inr result, cache')"
    by blast
  from r(2) have c: "c = 2"
    by (simp add: exact_mean_def)
  from r(6) have again: "get_demand_forecast (\<lambda>ys. 0) id (\<lambda>df periods. Some [(739003, 9)]) 1 739000
      (739000 * day_us + 77) demo_store cache' = (Inr result, cache')"
    by blast
  have res: "result = \<lparr>periodStart = 739000, periodEnd = 739007,
               predictions = map (\<lambda>d. \<lparr>point_date = d, predictedTrays = 2\<rparr>)
                 [739000, 739001, 739002, 739003, 739004, 739005, 739006]\<rparr>"
    using r(3,4,5) c up by (cases result) simp
  from miss range hist r(1) again res show ?thesis
    by simp
qed

text \<open>
  Claim C8 as stated fails: with no history at all and an empty cache, a horizon of
  600000 weeks puts the end of the period past 9999-12-31;
  \<^verbatim>\<open>start_date + timedelta(weeks=weeks)\<close> raises \<^verbatim>\<open>OverflowError\<close> before the \<^verbatim>\<open>try\<close>
  block, no forecast is returned and nothing is cached.
\<close>

theorem forecast_horizon_overflow:
  "get_historical_sales 60 (739000 * day_us + 5) demo_store = Inr []
   \<and> empty_cache (739000, 600000) = None
   \<and> get_demand_forecast exact_mean id no_prophet 600000 739000 (739000 * day_us + 5) demo_store empty_cache
        = (Inl OverflowError, empty_cache)"
  by (simp add: get_demand_forecast_def date_add_def timedelta_days_def date_min_def date_max_def
        get_historical_sales_def datetime_sub_days_def datetime_min_def datetime_max_def
        demo_defs day_us_def empty_cache_def Let_def)

end
